theory Spec2Isabelle
  imports Main "HOL-Library.Sublist" "HOL-Library.Word"
begin

section \<open>Go values shared by the packages\<close>

text \<open>
  A Go \<open>error\<close> is modelled by its message; a function returning \<open>error\<close> returns
  \<open>error option\<close>, \<open>None\<close> being \<open>nil\<close>. A call that can panic returns a
  \<open>go\<close> value: either what it returns, or the panic.
\<close>

datatype error = Error string

datatype 'a go = Return 'a | Panic string

text \<open>Reading a Go map of strings at a key that is absent gives the empty string.\<close>

definition lookup_str :: "(string \<rightharpoonup> string) \<Rightarrow> string \<Rightarrow> string" where
  "lookup_str m k = (case m k of None \<Rightarrow> [] | Some v \<Rightarrow> v)"

text \<open>\<open>strings.HasPrefix\<close> is \<^const>\<open>prefix\<close>; \<open>strings.Contains\<close> is \<^const>\<open>sublist\<close>.\<close>

definition HasPrefix :: "string \<Rightarrow> string \<Rightarrow> bool" where
  "HasPrefix s pre = prefix pre s"

definition Contains :: "string \<Rightarrow> string \<Rightarrow> bool" where
  "Contains s substr = sublist substr s"

text \<open>\<open>strings.Join\<close> with a separator.\<close>

fun Join :: "string list \<Rightarrow> string \<Rightarrow> string" where
  "Join [] sep = []"
| "Join [x] sep = x"
| "Join (x # y # ys) sep = x @ sep @ Join (y # ys) sep"

text \<open>
  \<open>fmt.Sprintf("%d", val)\<close>: the decimal digits of an integer, with a minus sign for a
  negative one.
\<close>

definition digit_char :: "nat \<Rightarrow> char" where
  "digit_char d = char_of (48 + d)"

fun digits :: "nat \<Rightarrow> string" where
  "digits n = (if n < 10 then [digit_char n] else digits (n div 10) @ [digit_char (n mod 10)])"

declare digits.simps [simp del]

definition Sprintf_d :: "int \<Rightarrow> string" where
  "Sprintf_d i = (if i < 0 then CHR ''-'' # digits (nat (- i)) else digits (nat i))"

section \<open>Package config: the packet provider's configuration\<close>

record HardwareDeviceConfig =
  HostName :: string
  OperatingSystem :: string
  Name :: string
  BillingCycle :: string
  PortVLANs :: "(string \<times> int) list option"

record FacilityDeviceConfig = HardwareDeviceConfig +
  Plan :: string

record PacketConfig =
  SSHKey :: string
  HardwareDevices :: "unit HardwareDeviceConfig_scheme list"
  HardwareReservations :: "string list"
  Devices :: "FacilityDeviceConfig list"
  Facilities :: "string list"
  PreferredFacility :: string

text \<open>
  \<open>config.ClusterProviderConfig\<close> is declared outside the sources; the record holds
  the fields the packet provider and the shell manager read. \<open>Packet\<close> is a pointer and
  may be nil; \<open>Scripts\<close> is a map from script kind to script text.
\<close>

record ClusterProviderConfig =
  cfg_Name :: string
  Env :: "string list"
  EnvCheck :: "string list"
  Scripts :: "string \<rightharpoonup> string"
  Packet :: "PacketConfig option"

text \<open>\<open>providers.InstanceOptions\<close>: the two switches read here.\<close>

record InstanceOptions =
  NoInstall :: bool
  NoMaskParameters :: bool

text \<open>The process environment: \<open>os.Getenv\<close> gives the empty string for an unset variable.\<close>

type_synonym environ = "string \<rightharpoonup> string"

definition Getenv :: "environ \<Rightarrow> string \<Rightarrow> string" where
  "Getenv env k = (case env k of None \<Rightarrow> [] | Some v \<Rightarrow> v)"

section \<open>Package packet: \<open>ValidateConfig\<close>\<close>

definition installScript_key :: string where "installScript_key = ''install''"
definition setupScript_key :: string where "setupScript_key = ''setup''"
definition startScript_key :: string where "startScript_key = ''start''"
definition configScript_key :: string where "configScript_key = ''config''"
definition prepareScript_key :: string where "prepareScript_key = ''prepare''"
definition stopScript_key :: string where "stopScript_key = ''stop''"
definition packetProjectID :: string where "packetProjectID = ''PACKET_PROJECT_ID''"

text \<open>The loop over \<open>config.Env\<close> looking for a \<open>KUBECONFIG=\<close> entry.\<close>

definition hasKubeConfig :: "string list \<Rightarrow> bool" where
  "hasKubeConfig es = list_ex (\<lambda>e. HasPrefix e ''KUBECONFIG='') es"

text \<open>
  The loop over \<open>config.EnvCheck\<close>: the first variable whose value is empty ends the
  validation with an error. The message prints the (empty) value and the whole list.
\<close>

fun checkEnv :: "environ \<Rightarrow> string list \<Rightarrow> string list \<Rightarrow> error option" where
  "checkEnv env allChecks [] = None"
| "checkEnv env allChecks (envVar # rest) =
     (let envValue = Getenv env envVar in
      if envValue = [] then
        Some (Error (''environment variable are not specified '' @ envValue @
                     '' Required variables: ['' @ Join allChecks '' '' @ '']''))
      else checkEnv env allChecks rest)"

definition ValidateConfig :: "environ \<Rightarrow> ClusterProviderConfig \<Rightarrow> error option" where
  "ValidateConfig env config =
     (case Packet config of
        None \<Rightarrow> Some (Error ''packet configuration element should be specified'')
      | Some pk \<Rightarrow>
         (let isHardware = (length (HardwareDevices pk) > 0);
              isFacility = (length (Devices pk) > 0) in
          if \<not> isHardware \<and> \<not> isFacility then
            Some (Error ''packet configuration devices should be specified'')
          else if isHardware \<and> length (HardwareReservations pk) = 0 then
            Some (Error ''packet hardware reservations should be specified'')
          else if isFacility \<and> length (Facilities pk) = 0 then
            Some (Error ''packet configuration facilities should be specified'')
          else if Scripts config configScript_key = None \<and> \<not> hasKubeConfig (Env config) then
            Some (Error ''invalid config location'')
          else if Scripts config startScript_key = None then
            Some (Error ''invalid start script'')
          else
            (case checkEnv env (EnvCheck config) (EnvCheck config) of
               Some e \<Rightarrow> Some e
             | None \<Rightarrow>
                 if Getenv env ''PACKET_AUTH_TOKEN'' = [] then
                   Some (Error ''environment variable are not specified PACKET_AUTH_TOKEN'')
                 else if Getenv env ''PACKET_PROJECT_ID'' = [] then
                   Some (Error ''environment variable are not specified PACKET_PROJECT_ID'')
                 else None)))"

section \<open>Package packet: the provider and its instances\<close>

text \<open>
  \<open>k8s.KubernetesValidator\<close> is an interface; a validator is modelled by what its two
  methods answer.
\<close>

record validator =
  WaitValid :: "error option"
  Validate :: "error option"

text \<open>
  The provider. \<open>indexes\<close> counts the clusters created per configuration name. Its
  values are Go \<open>int\<close>s, 64 bits wide on the 64-bit platforms the tool runs on: a
  counter is a 64-bit word, read as a signed number, and adding one to the largest value
  wraps around to the smallest. \<open>installDone\<close> is a \<open>map[string]bool\<close>, false where
  the key is absent. The mutex and the \<open>clusters\<close> slice (never written after
  construction) are left out.
\<close>

record packetProvider =
  prov_root :: string
  indexes :: "string \<rightharpoonup> 64 word"
  installDone :: "string \<Rightarrow> bool"

text \<open>
  The instance. Script slices and the validator may be nil. The handles of the Packet
  REST client (\<open>client\<close>, \<open>project\<close>, \<open>sshKey\<close>, \<open>keyID\<close>, the network,
  reservation and facility lists), the execution manager, the validation factory and
  the shell manager are external collaborators: what they answer is read from the
  \<open>world\<close> record below. The pointer to the provider is passed alongside the instance.
\<close>

record packetInstance =
  installScript :: "string list option"
  setupScript :: "string list option"
  startScript :: "string list option"
  prepareScript :: "string list option"
  stopScript :: "string list option"
  root :: string
  inst_id :: string
  configScript :: string
  validator :: "validator option"
  configLocation :: string
  projectID :: string
  packetAuthKey :: string
  config :: ClusterProviderConfig
  devices :: "string \<rightharpoonup> string"
  params :: InstanceOptions
  started :: bool
  keyIds :: "string list option"

text \<open>
  What the collaborators answer during one call. \<open>RunCmd\<close> is the shell manager's
  method (operation, script, extra environment), giving the log file name and an error;
  \<open>ParseScript\<close>, \<open>FileExists\<close>, \<open>path_Join\<close> and \<open>ExecRead\<close> are the utilities of
  package \<open>utils\<close> and of the standard library. The helpers \<open>updateProject\<close>,
  \<open>createKey\<close>, \<open>findHardwareReservations\<close>, \<open>createHardwareDevice\<close>, \<open>findFacilities\<close>,
  \<open>createFacilityDevice\<close>, \<open>waitDevicesStartup\<close>, \<open>setupDevicePorts\<close> and
  \<open>addDeviceContextArguments\<close> exchange requests with the Packet REST service and write
  only the client handles listed above; each is represented by its result.
\<close>

record world =
  os_env :: environ
  ParseScript :: "string \<Rightarrow> string list option"
  ProcessEnvironment :: "error option"
  RunCmd :: "string \<Rightarrow> string list option \<Rightarrow> string list \<Rightarrow> string \<times> error option"
  FileExists :: "string \<Rightarrow> bool"
  path_Join :: "string \<Rightarrow> string \<Rightarrow> string"
  NewClient :: "error option"
  updateProject :: "error option"
  createKey :: "string \<Rightarrow> string list option \<times> error option"
  ProjectVirtualNetworks_List :: "error option"
  findHardwareReservations :: "error option"
  createHardwareDevice :: "string \<Rightarrow> error + string"
  findFacilities :: "error option"
  createFacilityDevice :: "string \<Rightarrow> error + string"
  waitDevicesStartup :: "error option"
  setupDevicePorts :: "string \<Rightarrow> (string \<times> int) list \<Rightarrow> error option"
  addDeviceContextArguments :: "error option"
  GetConfigLocation :: string
  ExecRead :: "string list \<Rightarrow> string list \<times> error option"
  CreateValidator :: "string \<Rightarrow> validator option \<times> error option"

subsection \<open>The getters\<close>

definition GetID :: "packetInstance \<Rightarrow> string" where
  "GetID pi = inst_id pi"

definition GetRoot :: "packetInstance \<Rightarrow> string" where
  "GetRoot pi = root pi"

definition IsRunning :: "packetInstance \<Rightarrow> bool" where
  "IsRunning pi = started pi"

text \<open>A started instance whose validator is nil would dereference a nil interface.\<close>

definition CheckIsAlive :: "packetInstance \<Rightarrow> error option go" where
  "CheckIsAlive pi =
     (if started pi then
        (case validator pi of
           None \<Rightarrow> Panic ''nil pointer dereference''
         | Some v \<Rightarrow> Return (Validate v))
      else Return (Some (Error ''cluster is not running'')))"

definition GetClusterConfig :: "packetInstance \<Rightarrow> string \<times> error option" where
  "GetClusterConfig pi =
     (if started pi then (configLocation pi, None)
      else ([], Some (Error ''cluster is not started yet'')))"

text \<open>\<open>Destroy\<close> only logs; the instance is left as it is.\<close>

definition Destroy :: "packetInstance \<Rightarrow> error option \<times> packetInstance" where
  "Destroy pi = (None, pi)"

subsection \<open>\<open>updateKUBEConfig\<close>\<close>

text \<open>\<open>strings.Split(s, " ")\<close>: the pieces between single spaces.\<close>

fun Split_space :: "string \<Rightarrow> string list" where
  "Split_space [] = [[]]"
| "Split_space (c # cs) =
     (if c = CHR '' '' then [] # Split_space cs
      else (case Split_space cs of
              [] \<Rightarrow> [[c]]
            | w # ws \<Rightarrow> (c # w) # ws))"

text \<open>
  An error of \<open>ExecRead\<close> is logged and dropped; \<open>output[0]\<close> is then read whatever the
  output, which panics when it is empty.
\<close>

definition updateKUBEConfig :: "world \<Rightarrow> packetInstance \<Rightarrow> error option go \<times> packetInstance" where
  "updateKUBEConfig w pi =
     (let pi1 = (if configLocation pi = [] then pi\<lparr>configLocation := GetConfigLocation w\<rparr>
                 else pi) in
      if configLocation pi1 = [] then
        (case fst (ExecRead w (Split_space (configScript pi1))) of
           [] \<Rightarrow> (Panic ''index out of range [0] with length 0'', pi1)
         | out0 # _ \<Rightarrow> (Return None, pi1\<lparr>configLocation := out0\<rparr>))
      else (Return None, pi1))"

subsection \<open>\<open>doInstall\<close>\<close>

definition doInstall ::
  "world \<Rightarrow> packetInstance \<Rightarrow> packetProvider \<Rightarrow> (string \<times> error option) \<times> packetProvider" where
  "doInstall w pi p =
     (if installScript pi \<noteq> None \<and> \<not> installDone p (cfg_Name (config pi)) then
        (RunCmd w ''install'' (installScript pi) [],
         p\<lparr>installDone := (installDone p)(cfg_Name (config pi) := True)\<rparr>)
      else (([], None), p))"

subsection \<open>\<open>Start\<close>\<close>

text \<open>
  \<open>portsVLANs\<close> is a Go map from device name to its port-to-VLAN map; it is kept as
  an association list with one entry per key. Go visits the keys of a map in no fixed
  order; the model visits them in the order they were first written.
\<close>

type_synonym portsVLANs = "(string \<times> (string \<times> int) list) list"

fun ports_put :: "portsVLANs \<Rightarrow> string \<Rightarrow> (string \<times> int) list \<Rightarrow> portsVLANs" where
  "ports_put [] k v = [(k, v)]"
| "ports_put ((k', v') # rest) k v =
     (if k' = k then (k, v) # rest else (k', v') # ports_put rest k v)"

text \<open>
  The loop over \<open>config.Packet.HardwareDevices\<close>: the first device that cannot be
  created ends \<open>Start\<close>; the devices registered before it stay in \<open>pi.devices\<close>.
\<close>

fun createHardwareDevices ::
  "world \<Rightarrow> unit HardwareDeviceConfig_scheme list \<Rightarrow> (string \<rightharpoonup> string) \<Rightarrow> portsVLANs \<Rightarrow>
   error option \<times> (string \<rightharpoonup> string) \<times> portsVLANs" where
  "createHardwareDevices w [] devs ports = (None, devs, ports)"
| "createHardwareDevices w (devCfg # rest) devs ports =
     (case createHardwareDevice w (Name devCfg) of
        Inl e \<Rightarrow> (Some e, devs, ports)
      | Inr devID \<Rightarrow>
          createHardwareDevices w rest (devs(Name devCfg \<mapsto> devID))
            (case PortVLANs devCfg of
               None \<Rightarrow> ports
             | Some vl \<Rightarrow> ports_put ports (Name devCfg) vl))"

text \<open>The loop over \<open>config.Packet.Devices\<close>; here an empty port map is skipped too.\<close>

fun createFacilityDevices ::
  "world \<Rightarrow> FacilityDeviceConfig list \<Rightarrow> (string \<rightharpoonup> string) \<Rightarrow> portsVLANs \<Rightarrow>
   error option \<times> (string \<rightharpoonup> string) \<times> portsVLANs" where
  "createFacilityDevices w [] devs ports = (None, devs, ports)"
| "createFacilityDevices w (devCfg # rest) devs ports =
     (case createFacilityDevice w (Name devCfg) of
        Inl e \<Rightarrow> (Some e, devs, ports)
      | Inr devID \<Rightarrow>
          createFacilityDevices w rest (devs(Name devCfg \<mapsto> devID))
            (case PortVLANs devCfg of
               None \<Rightarrow> ports
             | Some vl \<Rightarrow> if length vl \<noteq> 0 then ports_put ports (Name devCfg) vl else ports))"

text \<open>The loop that sets up the ports of every device with a port map.\<close>

fun setupAllDevicePorts :: "world \<Rightarrow> portsVLANs \<Rightarrow> error option" where
  "setupAllDevicePorts w [] = None"
| "setupAllDevicePorts w ((key, vl) # rest) =
     (case setupDevicePorts w key vl of
        Some e \<Rightarrow> Some e
      | None \<Rightarrow> setupAllDevicePorts w rest)"

text \<open>
  \<open>Start\<close> in three parts, in the order of the source. The first part runs from the
  environment processing to the creation of the ssh key and gives the instance, the
  provider and, when \<open>Start\<close> ends there, what it returns.
\<close>

definition Start_prepare ::
  "world \<Rightarrow> packetInstance \<Rightarrow> packetProvider \<Rightarrow>
   (string \<times> error option) go option \<times> packetInstance \<times> packetProvider" where
  "Start_prepare w pi p =
     (case ProcessEnvironment w of
        Some e \<Rightarrow> (Some (Return ([], Some e)), pi, p)
      | None \<Rightarrow>
         (let (inst, p1) = (if \<not> NoInstall (params pi) then doInstall w pi p
                            else (([], None), p)) in
          case snd inst of
            Some e \<Rightarrow> (Some (Return (fst inst, Some e)), pi, p1)
          | None \<Rightarrow>
             (case RunCmd w ''setup'' (setupScript pi) [] of
                (fileName, Some e) \<Rightarrow> (Some (Return (fileName, Some e)), pi, p1)
              | (fileName, None) \<Rightarrow>
                 (case Packet (config pi) of
                    None \<Rightarrow> (Some (Panic ''nil pointer dereference''), pi, p1)
                  | Some pk \<Rightarrow>
                     (let keyFile0 = SSHKey pk;
                          keyFile = (if \<not> FileExists w keyFile0
                                     then path_Join w (root pi) keyFile0 else keyFile0) in
                      if \<not> FileExists w keyFile0 \<and> \<not> FileExists w keyFile then
                        (Some (Return ([], Some (Error
                           ''failed to locate generated key file, please specify init script to generate it''))),
                         pi, p1)
                      else
                        (case NewClient w of
                           Some e \<Rightarrow> (Some (Return ([], Some e)), pi, p1)
                         | None \<Rightarrow>
                            (case updateProject w of
                               Some e \<Rightarrow> (Some (Return ([], Some e)), pi, p1)
                             | None \<Rightarrow>
                                (case createKey w keyFile of
                                   (ids, Some e) \<Rightarrow>
                                     (Some (Return ([], Some e)), pi\<lparr>keyIds := ids\<rparr>, p1)
                                 | (ids, None) \<Rightarrow> (None, pi\<lparr>keyIds := ids\<rparr>, p1)))))))))"

text \<open>
  The second part lists the networks and reservations, creates the devices, waits for
  them and sets up their ports and arguments.
\<close>

definition Start_devices ::
  "world \<Rightarrow> packetInstance \<Rightarrow> (string \<times> error option) go option \<times> packetInstance" where
  "Start_devices w pi =
     (case ProjectVirtualNetworks_List w of
        Some e \<Rightarrow> (Some (Return ([], Some e)), pi)
      | None \<Rightarrow>
         (case findHardwareReservations w of
            Some e \<Rightarrow> (Some (Return ([], Some e)), pi)
          | None \<Rightarrow>
             (case Packet (config pi) of
                None \<Rightarrow> (Some (Panic ''nil pointer dereference''), pi)
              | Some pk \<Rightarrow>
                 (case createHardwareDevices w (HardwareDevices pk) (devices pi) [] of
                    (Some e, devs, ports) \<Rightarrow> (Some (Return ([], Some e)), pi\<lparr>devices := devs\<rparr>)
                  | (None, devs, ports) \<Rightarrow>
                     (let pi1 = pi\<lparr>devices := devs\<rparr> in
                      case findFacilities w of
                        Some e \<Rightarrow> (Some (Return ([], Some e)), pi1)
                      | None \<Rightarrow>
                         (case createFacilityDevices w (Devices pk) (devices pi1) ports of
                            (Some e, devs2, ports2) \<Rightarrow>
                              (Some (Return ([], Some e)), pi1\<lparr>devices := devs2\<rparr>)
                          | (None, devs2, ports2) \<Rightarrow>
                             (let pi2 = pi1\<lparr>devices := devs2\<rparr> in
                              case waitDevicesStartup w of
                                Some e \<Rightarrow> (Some (Return ([], Some e)), pi2)
                              | None \<Rightarrow>
                                 (case setupAllDevicePorts w ports2 of
                                    Some e \<Rightarrow> (Some (Return ([], Some e)), pi2)
                                  | None \<Rightarrow>
                                     (case addDeviceContextArguments w of
                                        Some e \<Rightarrow> (Some (Return ([], Some e)), pi2)
                                      | None \<Rightarrow> (None, pi2))))))))))"

text \<open>
  The last part runs the start script, fixes the configuration location, creates the
  validator, runs the prepare script and waits for the cluster; only when all of that
  succeeded the instance is marked started.
\<close>

definition Start_finish ::
  "world \<Rightarrow> packetInstance \<Rightarrow> (string \<times> error option) go \<times> packetInstance" where
  "Start_finish w pi =
     (case RunCmd w ''start'' (startScript pi) [] of
        (fileName, Some e) \<Rightarrow> (Return (fileName, Some e), pi)
      | (fileName, None) \<Rightarrow>
         (case updateKUBEConfig w pi of
            (Panic m, pi1) \<Rightarrow> (Panic m, pi1)
          | (Return (Some e), pi1) \<Rightarrow> (Return ([], Some e), pi1)
          | (Return None, pi1) \<Rightarrow>
             (case CreateValidator w (configLocation pi1) of
                (v, Some e) \<Rightarrow> (Return ([], Some e), pi1\<lparr>validator := v\<rparr>)
              | (v, None) \<Rightarrow>
                 (let pi2 = pi1\<lparr>validator := v\<rparr> in
                  case RunCmd w ''prepare'' (prepareScript pi2)
                         [''KUBECONFIG='' @ configLocation pi2] of
                    (fileName, Some e) \<Rightarrow> (Return (fileName, Some e), pi2)
                  | (fileName, None) \<Rightarrow>
                     (case validator pi2 of
                        None \<Rightarrow> (Panic ''nil pointer dereference'', pi2)
                      | Some vd \<Rightarrow>
                         (case WaitValid vd of
                            Some e \<Rightarrow> (Return (fileName, Some e), pi2)
                          | None \<Rightarrow> (Return ([], None), pi2\<lparr>started := True\<rparr>)))))))"

definition Start ::
  "world \<Rightarrow> packetInstance \<Rightarrow> packetProvider \<Rightarrow>
   (string \<times> error option) go \<times> packetInstance \<times> packetProvider" where
  "Start w pi p =
     (case Start_prepare w pi p of
        (Some r, pi1, p1) \<Rightarrow> (r, pi1, p1)
      | (None, pi1, p1) \<Rightarrow>
         (case Start_devices w pi1 of
            (Some r, pi2) \<Rightarrow> (r, pi2, p1)
          | (None, pi2) \<Rightarrow>
             (case Start_finish w pi2 of (r, pi3) \<Rightarrow> (r, pi3, p1))))"

text \<open>
  A sequence of \<open>Start\<close> calls on one instance, each in the world of its moment, with
  what each call returned; a panic ends the sequence.
\<close>

fun Starts ::
  "world list \<Rightarrow> packetInstance \<Rightarrow> packetProvider \<Rightarrow>
   (string \<times> error option) go list \<times> packetInstance \<times> packetProvider" where
  "Starts [] pi p = ([], pi, p)"
| "Starts (w # ws) pi p =
     (case Start w pi p of
        (Panic m, pi', p') \<Rightarrow> ([Panic m], pi', p')
      | (Return res, pi', p') \<Rightarrow>
          (case Starts ws pi' p' of (rs, pi'', p'') \<Rightarrow> (Return res # rs, pi'', p'')))"

subsection \<open>\<open>getProviderID\<close> and \<open>CreateCluster\<close>\<close>

definition getProviderID :: "packetProvider \<Rightarrow> string \<Rightarrow> string \<times> packetProvider" where
  "getProviderID p provider =
     (let val = (case indexes p provider of Some v \<Rightarrow> v + 1 | None \<Rightarrow> 1) in
      (Sprintf_d (sint val), p\<lparr>indexes := (indexes p)(provider \<mapsto> val)\<rparr>))"

text \<open>The value of the counter of a configuration name; no entry counts as 0.\<close>

definition idx :: "packetProvider \<Rightarrow> string \<Rightarrow> 64 word" where
  "idx p P = (case indexes p P of None \<Rightarrow> 0 | Some v \<Rightarrow> v)"

definition CreateCluster ::
  "world \<Rightarrow> packetProvider \<Rightarrow> ClusterProviderConfig \<Rightarrow> InstanceOptions \<Rightarrow>
   (error + packetInstance) \<times> packetProvider" where
  "CreateCluster w p cfg instanceOptions =
     (case ValidateConfig (os_env w) cfg of
        Some err \<Rightarrow> (Inl err, p)
      | None \<Rightarrow>
         (let (ordinal, p1) = getProviderID p (cfg_Name cfg);
              ident = cfg_Name cfg @ ''-'' @ ordinal;
              rootDir = path_Join w (prov_root p1) ident in
          (Inr \<lparr> installScript = ParseScript w (lookup_str (Scripts cfg) installScript_key),
                 setupScript = ParseScript w (lookup_str (Scripts cfg) setupScript_key),
                 startScript = ParseScript w (lookup_str (Scripts cfg) startScript_key),
                 prepareScript = ParseScript w (lookup_str (Scripts cfg) prepareScript_key),
                 stopScript = ParseScript w (lookup_str (Scripts cfg) stopScript_key),
                 root = rootDir,
                 inst_id = ident,
                 configScript = lookup_str (Scripts cfg) configScript_key,
                 validator = None,
                 configLocation = [],
                 projectID = Getenv (os_env w) packetProjectID,
                 packetAuthKey = Getenv (os_env w) ''PACKET_AUTH_TOKEN'',
                 config = cfg,
                 devices = Map.empty,
                 params = instanceOptions,
                 started = False,
                 keyIds = None \<rparr>, p1)))"

definition NewPacketClusterProvider :: "string \<Rightarrow> packetProvider" where
  "NewPacketClusterProvider r =
     \<lparr> prov_root = r, indexes = Map.empty, installDone = (\<lambda>_. False) \<rparr>"

text \<open>
  A sequence of \<open>CreateCluster\<close> calls on one provider, each with the configuration and
  the environment of its moment, and the instances among the results that were created
  for the configuration name \<open>P\<close>, in the order of their creation.
\<close>

fun CreateClusters ::
  "packetProvider \<Rightarrow> (world \<times> ClusterProviderConfig \<times> InstanceOptions) list \<Rightarrow>
   (error + packetInstance) list" where
  "CreateClusters p [] = []"
| "CreateClusters p ((w, cfg, opts) # calls) =
     (case CreateCluster w p cfg opts of (r, p') \<Rightarrow> r # CreateClusters p' calls)"

fun created :: "string \<Rightarrow> (error + packetInstance) list \<Rightarrow> packetInstance list" where
  "created P [] = []"
| "created P (Inl e # rs) = created P rs"
| "created P (Inr pi # rs) =
     (if cfg_Name (config pi) = P then pi # created P rs else created P rs)"

section \<open>Package strings: \<open>Replace\<close>\<close>

text \<open>
  Go strings are byte sequences, as \<^typ>\<open>string\<close> is. \<open>utf8.DecodeRuneInString\<close> gives the
  width in bytes of the first rune: 1 for ASCII and for an invalid or truncated encoding,
  otherwise the length of the well-formed UTF-8 sequence.
\<close>

definition first_byte :: "nat \<Rightarrow> nat \<times> nat \<times> nat" where
  "first_byte s0 =
     (if s0 < 0xC2 then (1, 0, 0)
      else if s0 \<le> 0xDF then (2, 0x80, 0xBF)
      else if s0 = 0xE0 then (3, 0xA0, 0xBF)
      else if s0 = 0xED then (3, 0x80, 0x9F)
      else if s0 \<le> 0xEF then (3, 0x80, 0xBF)
      else if s0 = 0xF0 then (4, 0x90, 0xBF)
      else if s0 \<le> 0xF3 then (4, 0x80, 0xBF)
      else if s0 = 0xF4 then (4, 0x80, 0x8F)
      else (1, 0, 0))"

definition cont_byte :: "nat \<Rightarrow> bool" where
  "cont_byte b = (0x80 \<le> b \<and> b \<le> 0xBF)"

definition runeWidth :: "string \<Rightarrow> nat" where
  "runeWidth s =
     (case map of_char s of
        [] \<Rightarrow> 0
      | s0 # rest \<Rightarrow>
         (case first_byte s0 of (sz, lo, hi) \<Rightarrow>
            if sz = 1 then 1
            else if length s < sz then 1
            else if hd rest < lo \<or> hi < hd rest then 1
            else if sz \<le> 2 then 2
            else if \<not> cont_byte (rest ! 1) then 1
            else if sz \<le> 3 then 3
            else if \<not> cont_byte (rest ! 2) then 1
            else 4))"

lemma runeWidth_pos: "s \<noteq> [] \<Longrightarrow> 0 < runeWidth s"
  by (cases s) (auto simp: runeWidth_def split: prod.splits)

text \<open>
  \<open>strings.Count(s, old)\<close> for a non-empty \<open>old\<close>: the number of non-overlapping
  occurrences, found from the left.
\<close>

function Count :: "string \<Rightarrow> string \<Rightarrow> nat" where
  "Count s old =
     (if s = [] \<or> old = [] then 0
      else if prefix old s then 1 + Count (drop (length old) s) old
      else Count (tl s) old)"
  by pat_completeness auto
termination
  by (relation "measure (\<lambda>(s, old). length s)") (auto simp: neq_Nil_conv)

declare Count.simps [simp del]

text \<open>
  The loop of \<open>strings.Replace\<close> for a non-empty \<open>old\<close>: the text up to the next
  occurrence is copied, the occurrence is replaced, and the scan goes on behind it.
\<close>

function replaceLoop :: "string \<Rightarrow> string \<Rightarrow> string \<Rightarrow> string" where
  "replaceLoop s old new =
     (if s = [] \<or> old = [] then s
      else if prefix old s then new @ replaceLoop (drop (length old) s) old new
      else hd s # replaceLoop (tl s) old new)"
  by pat_completeness auto
termination
  by (relation "measure (\<lambda>(s, old, new). length s)") (auto simp: neq_Nil_conv)

declare replaceLoop.simps [simp del]

text \<open>
  For an empty \<open>old\<close> the loop puts \<open>new\<close> in front of every rune and at the end.
\<close>

function insertAtRunes :: "string \<Rightarrow> string \<Rightarrow> string" where
  "insertAtRunes s new =
     (if s = [] then new
      else new @ take (runeWidth s) s @ insertAtRunes (drop (runeWidth s) s) new)"
  by pat_completeness auto
termination
  by (relation "measure (\<lambda>(s, new). length s)") (auto simp: runeWidth_pos)

declare insertAtRunes.simps [simp del]

text \<open>\<open>strings.Replace(s, old, new, -1)\<close>.\<close>

definition Replace :: "string \<Rightarrow> string \<Rightarrow> string \<Rightarrow> string" where
  "Replace s old new =
     (if old = new then s
      else if old = [] then insertAtRunes s new
      else if Count s old = 0 then s
      else replaceLoop s old new)"

section \<open>Package shell: printing the environment and the arguments\<close>

text \<open>
  The shell manager. \<open>processedEnv\<close> and \<open>finalArgs\<close> belong to the embedded
  environment manager; \<open>finalArgs\<close> is a Go map, listed here in the order one
  \<open>range\<close> over it visits its entries. \<open>utils.ParseVariable\<close>, which splits
  \<open>NAME=value\<close> into its two parts, is a parameter of \<open>PrintEnv\<close>.
\<close>

record shellInterface =
  si_id :: string
  si_config :: ClusterProviderConfig
  si_params :: InstanceOptions
  processedEnv :: "string list"
  finalArgs :: "(string \<times> string) list"

text \<open>
  The inner loop of both functions: for every name of \<open>EnvCheck\<close> in turn, the
  occurrences of the variable's current value are replaced by four stars.
\<close>

definition maskValue :: "environ \<Rightarrow> string list \<Rightarrow> string \<Rightarrow> string" where
  "maskValue env checks varValue =
     fold (\<lambda>ce v. Replace v (Getenv env ce) ''****'') checks varValue"

definition printValue :: "environ \<Rightarrow> shellInterface \<Rightarrow> string \<Rightarrow> string" where
  "printValue env si varValue =
     (if \<not> NoMaskParameters (si_params si)
      then maskValue env (EnvCheck (si_config si)) varValue
      else varValue)"

definition PrintEnv ::
  "(string \<Rightarrow> string \<times> string) \<Rightarrow> environ \<Rightarrow> shellInterface \<Rightarrow> string list \<Rightarrow> string" where
  "PrintEnv ParseVariable env si penv =
     concat (map (\<lambda>cmdEnvValue.
                    (case ParseVariable cmdEnvValue of (varName, varValue) \<Rightarrow>
                       varName @ ''='' @ printValue env si varValue @ [CHR 0x0A]))
                 penv)"

definition PrintArgs :: "environ \<Rightarrow> shellInterface \<Rightarrow> string" where
  "PrintArgs env si =
     ''Arguments:'' @ [CHR 0x0A] @
     concat (map (\<lambda>(varName, varValue).
                    varName @ ''='' @ printValue env si varValue @ [CHR 0x0A])
                 (finalArgs si))"

section \<open>Package commands: the execution engine\<close>

text \<open>
  Of package \<open>commands\<close> the sources hold the health checks and two tests,
  \<open>TestClusterInstanceStates\<close> and \<open>TestUpdateTaskWithTimeout_ShouldNotCompleteTask\<close>;
  the engine they exercise (\<open>startCluster\<close>, \<open>destroyCluster\<close>,
  \<open>updateTestExecution\<close>, \<open>pollEvents\<close>) is not among them. The definitions of this
  section model the state machine of a cluster instance and follow the specification.
\<close>

text \<open>
  Modelled from the spec: the states of a cluster instance, the causes of a crash, the
  statuses of a test and the events on the operation channel (section 3), whose
  declarations are in the missing part of package \<open>commands\<close>. The constants
  \<open>clusterStarting\<close>, \<open>clusterReady\<close>, \<open>clusterStopping\<close> and \<open>clusterCrashed\<close> of the
  tests are the states \<open>Starting\<close>, \<open>Ready\<close>, \<open>Stopping\<close> and \<open>Crashed\<close>; the
  statuses \<open>model.StatusSkipped\<close> and \<open>model.StatusTimeout\<close> are \<open>Skipped\<close> and
  \<open>Timeout\<close>.
\<close>

datatype clusterState =
  NotStarted | Starting | Ready | Busy | Stopping | Crashed | Destroyed

datatype crashCause = startup | liveness

datatype Status =
  Pending | InProgress | Success | Failed | Timeout | Skipped | RerunRequired

datatype OperationEvent =
    TaskFinished string Status string
  | ClusterReady string
  | ClusterCrashed string crashCause
  | ClusterDestroyed string

text \<open>
  Modelled from the spec: the \<open>ClusterInstance\<close> of section 3, which is declared in the
  missing part of package \<open>commands\<close>. \<open>provisionerCancelled\<close> records whether the context
  of the in-flight provisioner has been cancelled, \<open>destroyRequested\<close> whether the
  provider's \<open>Destroy\<close> has been requested.
\<close>

record clusterInstance =
  ID :: string
  state :: clusterState
  ConfigLocation :: string
  RetriesRemaining :: nat
  TaskInFlight :: "string option"
  provisionerCancelled :: bool
  destroyRequested :: bool

text \<open>
  Modelled from the spec: the events of the transition table of section 4.1, and the
  states it calls live. The table words the action of \<open>livenessFail\<close> as that of
  \<open>provisionFail\<close>; the event it emits is taken to carry the cause \<open>liveness\<close>.
\<close>

datatype lifecycleEvent =
    schedulerDemand
  | provisionOK string
  | provisionFail
  | bind string
  | taskDone Status string
  | taskTimeout
  | livenessFail
  | destroyOK
  | recycle

definition live :: "clusterState \<Rightarrow> bool" where
  "live s = (s = Starting \<or> s = Ready \<or> s = Busy)"

text \<open>
  Modelled from the spec: the transition table of section 4.1, the state machine that
  the missing \<open>startCluster\<close> and event loop drive. A row gives the next instance and the
  events emitted; \<open>None\<close> where the table has no row. The last row either schedules a new
  start or, with no retries left, removes the instance (\<open>None\<close> for the instance).
\<close>

fun transition ::
  "clusterInstance \<Rightarrow> lifecycleEvent \<Rightarrow> (clusterInstance option \<times> OperationEvent list) option" where
  "transition ci schedulerDemand =
     (if state ci = NotStarted then Some (Some (ci\<lparr>state := Starting\<rparr>), []) else None)"
| "transition ci (provisionOK location) =
     (if state ci = Starting
      then Some (Some (ci\<lparr>state := Ready, ConfigLocation := location\<rparr>), [ClusterReady (ID ci)])
      else None)"
| "transition ci provisionFail =
     (if state ci = Starting
      then Some (Some (ci\<lparr>state := Crashed\<rparr>), [ClusterCrashed (ID ci) startup])
      else None)"
| "transition ci (bind task) =
     (if state ci = Ready
      then Some (Some (ci\<lparr>state := Busy, TaskInFlight := Some task\<rparr>), [])
      else None)"
| "transition ci (taskDone outcome logFile) =
     (if state ci = Busy
      then (case TaskInFlight ci of
              None \<Rightarrow> None
            | Some task \<Rightarrow>
                Some (Some (ci\<lparr>state := Ready, TaskInFlight := None\<rparr>),
                      [TaskFinished task outcome logFile]))
      else None)"
| "transition ci taskTimeout =
     (if state ci = Busy
      then Some (Some (ci\<lparr>state := Stopping, destroyRequested := True\<rparr>), [])
      else None)"
| "transition ci livenessFail =
     (if live (state ci)
      then Some (Some (ci\<lparr>state := Crashed\<rparr>), [ClusterCrashed (ID ci) liveness])
      else None)"
| "transition ci destroyOK =
     (if state ci = Stopping
      then Some (Some (ci\<lparr>state := Destroyed\<rparr>), [ClusterDestroyed (ID ci)])
      else None)"
| "transition ci recycle =
     (if state ci = Crashed
      then (if RetriesRemaining ci > 0
            then Some (Some (ci\<lparr>state := NotStarted,
                                RetriesRemaining := RetriesRemaining ci - 1\<rparr>), [])
            else Some (None, []))
      else None)"

text \<open>
  Modelled from the spec: the end of the missing \<open>startCluster\<close>. The provider's
  \<open>Start\<close> is synchronous and a nil error means the cluster is ready (section 6): its
  result is the provisioning event of the instance.
\<close>

definition provisioned :: "string \<times> error option \<Rightarrow> string \<Rightarrow> lifecycleEvent" where
  "provisioned startResult location =
     (case snd startResult of None \<Rightarrow> provisionOK location | Some err \<Rightarrow> provisionFail)"

section \<open>Concrete inputs\<close>

text \<open>
  A packet configuration with one facility device, an environment that sets both packet
  variables, and a world in which every collaborator succeeds.
\<close>

definition env_ok :: environ where
  "env_ok = [''PACKET_AUTH_TOKEN'' \<mapsto> ''token'', ''PACKET_PROJECT_ID'' \<mapsto> ''project'']"

definition env_no_token :: environ where
  "env_no_token = [''PACKET_PROJECT_ID'' \<mapsto> ''project'']"

definition dev_ok :: FacilityDeviceConfig where
  "dev_ok = \<lparr> HostName = ''master'', OperatingSystem = ''ubuntu_18_04'', Name = ''Master'',
              BillingCycle = ''hourly'', PortVLANs = None, Plan = ''t1.small.x86'' \<rparr>"

definition packet_ok :: PacketConfig where
  "packet_ok = \<lparr> SSHKey = ''sshkey.pub'', HardwareDevices = [], HardwareReservations = [],
                 Devices = [dev_ok], Facilities = [''baremetal''], PreferredFacility = [] \<rparr>"

definition cfg_ok :: ClusterProviderConfig where
  "cfg_ok = \<lparr> cfg_Name = ''packet'', Env = [],
              EnvCheck = [''PACKET_PROJECT_ID''],
              Scripts = [''config'' \<mapsto> ''echo /tmp/config'', ''start'' \<mapsto> ''echo starting''],
              Packet = Some packet_ok \<rparr>"

definition cfg_no_packet :: ClusterProviderConfig where
  "cfg_no_packet = cfg_ok\<lparr>Packet := None\<rparr>"

definition opts_default :: InstanceOptions where
  "opts_default = \<lparr> NoInstall = False, NoMaskParameters = False \<rparr>"

definition validator_ok :: validator where
  "validator_ok = \<lparr> WaitValid = None, Validate = None \<rparr>"

definition world_ok :: world where
  "world_ok = \<lparr> os_env = env_ok,
       ParseScript = (\<lambda>s. if s = [] then None else Some [s]),
       ProcessEnvironment = None,
       RunCmd = (\<lambda>operation script env. (''/logs/'' @ operation @ ''.log'', None)),
       FileExists = (\<lambda>f. f = ''sshkey.pub''),
       path_Join = (\<lambda>a b. a @ ''/'' @ b),
       NewClient = None,
       updateProject = None,
       createKey = (\<lambda>keyFile. (Some [''key-1''], None)),
       ProjectVirtualNetworks_List = None,
       findHardwareReservations = None,
       createHardwareDevice = (\<lambda>name. Inr (''hw-'' @ name)),
       findFacilities = None,
       createFacilityDevice = (\<lambda>name. Inr (''dev-'' @ name)),
       waitDevicesStartup = None,
       setupDevicePorts = (\<lambda>key vl. None),
       addDeviceContextArguments = None,
       GetConfigLocation = [],
       ExecRead = (\<lambda>cmd. ([''/tmp/config''], None)),
       CreateValidator = (\<lambda>location. (Some validator_ok, None)) \<rparr>"

text \<open>The environment cannot be processed.\<close>

definition world_env_fails :: world where
  "world_env_fails = world_ok\<lparr>ProcessEnvironment := Some (Error ''cannot process environment'')\<rparr>"

text \<open>The start script exits with status 2.\<close>

definition world_start_fails :: world where
  "world_start_fails = world_ok\<lparr>RunCmd := (\<lambda>operation script env.
      (''/logs/'' @ operation @ ''.log'',
       if operation = ''start'' then Some (Error ''exit status 2'') else None))\<rparr>"

text \<open>The cluster never gets its nodes: the validator's wait fails.\<close>

definition world_unready :: world where
  "world_unready = world_ok\<lparr>CreateValidator := (\<lambda>location.
      (Some \<lparr> WaitValid = Some (Error ''timeout''), Validate = Some (Error ''timeout'') \<rparr>,
       None))\<rparr>"

text \<open>The cluster comes up and is found unhealthy by the next validation.\<close>

definition world_sick :: world where
  "world_sick = world_ok\<lparr>CreateValidator := (\<lambda>location.
      (Some \<lparr> WaitValid = None, Validate = Some (Error ''nodes are not ready'') \<rparr>, None))\<rparr>"

text \<open>The shell manager finds another \<open>KUBECONFIG\<close>, and the config script prints another path.\<close>

definition world_moved :: world where
  "world_moved = world_ok\<lparr>GetConfigLocation := ''/elsewhere/config'',
      ExecRead := (\<lambda>cmd. ([''/elsewhere/config''], None))\<rparr>"

definition provider0 :: packetProvider where
  "provider0 = NewPacketClusterProvider ''/root''"

text \<open>The first instance created for \<open>cfg_ok\<close>, and the same instance after a start.\<close>

definition inst_fresh :: packetInstance where
  "inst_fresh = projr (fst (CreateCluster world_ok provider0 cfg_ok opts_default))"

definition inst_started :: packetInstance where
  "inst_started = fst (snd (Start world_ok inst_fresh provider0))"

text \<open>
  Three calls of \<open>CreateCluster\<close> on a new provider: the second one is refused by
  \<open>ValidateConfig\<close>.
\<close>

definition calls3 :: "(world \<times> ClusterProviderConfig \<times> InstanceOptions) list" where
  "calls3 = [(world_ok, cfg_ok, opts_default), (world_ok, cfg_no_packet, opts_default),
             (world_ok, cfg_ok, opts_default)]"

text \<open>
  A shell manager whose configuration checks the variable \<open>SECRET\<close>, an environment
  where the value of that variable is a star, one where it is a token, and a
  \<open>ParseVariable\<close> that splits at the first equals sign.
\<close>

definition si_secret :: shellInterface where
  "si_secret = \<lparr> si_id = ''packet-1'', si_config = cfg_ok\<lparr>EnvCheck := [''SECRET'']\<rparr>,
                 si_params = opts_default, processedEnv = [],
                 finalArgs = [(''token'', ''Bearer s3cr3t'')] \<rparr>"

definition env_star :: environ where
  "env_star = [''SECRET'' \<mapsto> ''*'']"

definition env_token :: environ where
  "env_token = [''SECRET'' \<mapsto> ''s3cr3t'']"

definition splitVariable :: "string \<Rightarrow> string \<times> string" where
  "splitVariable e = (takeWhile (\<lambda>c. c \<noteq> CHR ''='') e, drop 1 (dropWhile (\<lambda>c. c \<noteq> CHR ''='') e))"

text \<open>
  The instance \<open>a_provider-1\<close> of \<open>TestClusterInstanceStates\<close> once it is ready.
\<close>

definition test_instance :: clusterInstance where
  "test_instance = \<lparr> ID = ''a_provider-1'', state = Ready, ConfigLocation = ''./.tests/config'',
                      RetriesRemaining = 1, TaskInFlight = None,
                      provisionerCancelled = False, destroyRequested = False \<rparr>"

section \<open>The packet instance: \<open>Start\<close>, \<open>GetClusterConfig\<close> and the configuration location\<close>

lemma updateKUBEConfig_set:
  "configLocation pi \<noteq> [] \<Longrightarrow> updateKUBEConfig w pi = (Return None, pi)"
  by (simp add: updateKUBEConfig_def)

lemma updateKUBEConfig_frame:
  "updateKUBEConfig w pi = (r, pi') \<Longrightarrow> started pi' = started pi \<and> validator pi' = validator pi"
  by (auto simp: updateKUBEConfig_def Let_def split: if_splits list.splits)

lemma Start_prepare_frame:
  "Start_prepare w pi p = (r, pi', p') \<Longrightarrow>
     started pi' = started pi \<and> configLocation pi' = configLocation pi \<and>
     validator pi' = validator pi"
  by (auto simp: Start_prepare_def Let_def split: option.splits prod.splits if_splits)

lemma Start_prepare_stops:
  "Start_prepare w pi p = (Some res, pi', p') \<Longrightarrow> res \<noteq> Return (fileName, None)"
  by (auto simp: Start_prepare_def Let_def split: option.splits prod.splits if_splits)

lemma Start_devices_frame:
  "Start_devices w pi = (r, pi') \<Longrightarrow>
     started pi' = started pi \<and> configLocation pi' = configLocation pi \<and>
     validator pi' = validator pi"
  by (auto simp: Start_devices_def Let_def split: option.splits prod.splits if_splits)

lemma Start_devices_stops:
  "Start_devices w pi = (Some res, pi') \<Longrightarrow> res \<noteq> Return (fileName, None)"
  by (auto simp: Start_devices_def Let_def split: option.splits prod.splits if_splits)

lemma Start_finish_success:
  "Start_finish w pi = (Return (fileName, None), pi') \<Longrightarrow>
     started pi' \<and> (\<exists>vd. validator pi' = Some vd \<and> WaitValid vd = None)"
  by (auto simp: Start_finish_def Let_def split: option.splits prod.splits if_splits go.splits)

lemma Start_finish_failure:
  "Start_finish w pi = (r, pi') \<Longrightarrow> (\<forall>fileName. r \<noteq> Return (fileName, None)) \<Longrightarrow>
     started pi' = started pi"
  by (auto simp: Start_finish_def Let_def dest: updateKUBEConfig_frame
      split: option.splits prod.splits if_splits go.splits)

lemma Start_finish_location:
  "configLocation pi \<noteq> [] \<Longrightarrow> configLocation (snd (Start_finish w pi)) = configLocation pi"
  by (auto simp: Start_finish_def Let_def updateKUBEConfig_set
      split: option.splits prod.splits if_splits go.splits)

lemma Start_success:
  assumes "Start w pi p = (Return (fileName, None), pi', p')"
  shows "started pi' \<and> (\<exists>vd. validator pi' = Some vd \<and> WaitValid vd = None)"
proof -
  obtain r1 pi1 p1 where sp: "Start_prepare w pi p = (r1, pi1, p1)"
    by (cases "Start_prepare w pi p") auto
  obtain r2 pi2 where sd: "Start_devices w pi1 = (r2, pi2)"
    by (cases "Start_devices w pi1") auto
  from assms sp Start_prepare_stops [of w pi p _ pi1 p1 fileName] have r1: "r1 = None"
    by (cases r1) (auto simp: Start_def)
  from assms sp sd r1 Start_devices_stops [of w pi1 _ pi2 fileName] have r2: "r2 = None"
    by (cases r2) (auto simp: Start_def)
  from assms sp sd r1 r2 have "Start_finish w pi2 = (Return (fileName, None), pi')"
    by (auto simp: Start_def split: prod.splits)
  then show ?thesis by (rule Start_finish_success)
qed

lemma Start_failure:
  assumes "Start w pi p = (r, pi', p')" and "\<forall>fileName. r \<noteq> Return (fileName, None)"
  shows "started pi' = started pi"
proof -
  obtain r1 pi1 p1 where sp: "Start_prepare w pi p = (r1, pi1, p1)"
    by (cases "Start_prepare w pi p") auto
  obtain r2 pi2 where sd: "Start_devices w pi1 = (r2, pi2)"
    by (cases "Start_devices w pi1") auto
  note f1 = Start_prepare_frame [OF sp] and f2 = Start_devices_frame [OF sd]
  show ?thesis
  proof (cases r1)
    case (Some res)
    with assms sp f1 show ?thesis by (simp add: Start_def)
  next
    case None
    show ?thesis
    proof (cases r2)
      case (Some res)
      with assms sp sd None f1 f2 show ?thesis by (simp add: Start_def)
    next
      case n2: None
      obtain r3 pi3 where sf: "Start_finish w pi2 = (r3, pi3)"
        by (cases "Start_finish w pi2") auto
      with assms sp sd None n2 have "r3 = r" "pi3 = pi'" by (simp_all add: Start_def)
      with sf assms(2) have "started pi' = started pi2" by (auto dest: Start_finish_failure)
      with f1 f2 show ?thesis by simp
    qed
  qed
qed

lemma Start_location:
  assumes "configLocation pi \<noteq> []"
  shows "configLocation (fst (snd (Start w pi p))) = configLocation pi"
proof -
  obtain r1 pi1 p1 where sp: "Start_prepare w pi p = (r1, pi1, p1)"
    by (cases "Start_prepare w pi p") auto
  obtain r2 pi2 where sd: "Start_devices w pi1 = (r2, pi2)"
    by (cases "Start_devices w pi1") auto
  note f1 = Start_prepare_frame [OF sp] and f2 = Start_devices_frame [OF sd]
  from f1 f2 assms have "configLocation pi2 \<noteq> []" by simp
  then have "configLocation (snd (Start_finish w pi2)) = configLocation pi2"
    by (rule Start_finish_location)
  with sp sd f1 f2 show ?thesis
    by (cases r1; cases r2) (auto simp: Start_def split: prod.splits)
qed

lemma Starts_started:
  "Starts ws pi p = (rs, pi', p') \<Longrightarrow>
   started pi' \<longleftrightarrow> started pi \<or> (\<exists>fileName. Return (fileName, None) \<in> set rs)"
proof (induction ws arbitrary: pi p rs pi' p')
  case Nil
  then show ?case by simp
next
  case (Cons w ws)
  obtain r pi1 p1 where st: "Start w pi p = (r, pi1, p1)"
    by (cases "Start w pi p") auto
  show ?case
  proof (cases r)
    case (Panic m)
    with st have "started pi1 = started pi" by (auto dest: Start_failure)
    with Cons.prems st Panic show ?thesis by auto
  next
    case (Return res)
    obtain rs2 pi2 p2 where rest: "Starts ws pi1 p1 = (rs2, pi2, p2)"
      by (cases "Starts ws pi1 p1") auto
    from Cons.prems st Return rest have rs: "rs = Return res # rs2" and pi': "pi' = pi2"
      by simp_all
    note ih = Cons.IH [OF rest]
    obtain fileName err where res: "res = (fileName, err)" by (cases res) auto
    show ?thesis
    proof (cases err)
      case None
      with st Return res have "started pi1" by (auto dest: Start_success)
      with ih rs pi' res None show ?thesis by auto
    next
      case (Some e)
      with st Return res have "started pi1 = started pi" by (auto dest: Start_failure)
      with ih rs pi' res Some show ?thesis by auto
    qed
  qed
qed

lemma Starts_location:
  "configLocation pi \<noteq> [] \<Longrightarrow> configLocation (fst (snd (Starts ws pi p))) = configLocation pi"
proof (induction ws arbitrary: pi p)
  case Nil
  then show ?case by simp
next
  case (Cons w ws)
  obtain r pi1 p1 where st: "Start w pi p = (r, pi1, p1)"
    by (cases "Start w pi p") auto
  from Start_location [OF Cons.prems, of w p] st have loc: "configLocation pi1 = configLocation pi"
    by simp
  show ?case
  proof (cases r)
    case (Panic m)
    with st loc show ?thesis by simp
  next
    case (Return res)
    obtain rs2 pi2 p2 where rest: "Starts ws pi1 p1 = (rs2, pi2, p2)"
      by (cases "Starts ws pi1 p1") auto
    from loc Cons.prems have "configLocation pi1 \<noteq> []" by simp
    from Cons.IH [OF this, of p1] loc st Return rest show ?thesis
      by simp
  qed
qed

text \<open>
  Claim C5, as amended. When \<open>Start\<close> returns a nil error the instance is running:
  \<open>IsRunning\<close> is true, \<open>GetClusterConfig\<close> returns the configuration location with a
  nil error, and \<open>CheckIsAlive\<close> no longer reports a cluster that is not running but
  returns what the validator's \<open>Validate\<close> answers. On every other path, an error or a
  panic, \<open>Start\<close> leaves the started flag as it found it.
\<close>

theorem Start_nil_error_running:
  assumes "Start w pi p = (r, pi', p')"
  shows "case r of
           Return res \<Rightarrow>
             (case snd res of
                None \<Rightarrow>
                  IsRunning pi' \<and> GetClusterConfig pi' = (configLocation pi', None) \<and>
                  (\<exists>vd. validator pi' = Some vd \<and> CheckIsAlive pi' = Return (Validate vd))
              | Some err \<Rightarrow> IsRunning pi' = IsRunning pi)
         | Panic m \<Rightarrow> IsRunning pi' = IsRunning pi"
proof (cases r)
  case (Panic m)
  with assms have "started pi' = started pi" by (auto dest: Start_failure)
  with Panic show ?thesis by (simp add: IsRunning_def)
next
  case (Return res)
  obtain fileName err where res: "res = (fileName, err)" by (cases res) auto
  show ?thesis
  proof (cases err)
    case None
    with assms Return res have "started pi' \<and> (\<exists>vd. validator pi' = Some vd \<and> WaitValid vd = None)"
      by (auto dest: Start_success)
    with Return res None show ?thesis
      by (auto simp: IsRunning_def GetClusterConfig_def CheckIsAlive_def)
  next
    case (Some e)
    with assms Return res have "started pi' = started pi" by (auto dest: Start_failure)
    with Return res Some show ?thesis by (simp add: IsRunning_def)
  qed
qed

theorem Start_nil_error_running_witness:
  "fst (Start world_ok inst_fresh provider0) = Return ([], None) \<and>
   IsRunning inst_started \<and>
   GetClusterConfig inst_started = (configLocation inst_started, None) \<and>
   (\<exists>vd. validator inst_started = Some vd \<and> CheckIsAlive inst_started = Return (Validate vd)) \<and>
   fst (Start world_start_fails inst_fresh provider0) =
     Return (''/logs/start.log'', Some (Error ''exit status 2'')) \<and>
   IsRunning (fst (snd (Start world_start_fails inst_fresh provider0))) = IsRunning inst_fresh"
proof -
  have ok: "fst (Start world_ok inst_fresh provider0) = Return ([], None)"
    by code_simp
  have bad: "fst (Start world_start_fails inst_fresh provider0) =
      Return (''/logs/start.log'', Some (Error ''exit status 2''))"
    by code_simp
  have e1: "Start world_ok inst_fresh provider0 =
      (fst (Start world_ok inst_fresh provider0), inst_started,
       snd (snd (Start world_ok inst_fresh provider0)))"
    by (simp add: inst_started_def)
  have e2: "Start world_start_fails inst_fresh provider0 =
      (fst (Start world_start_fails inst_fresh provider0),
       fst (snd (Start world_start_fails inst_fresh provider0)),
       snd (snd (Start world_start_fails inst_fresh provider0)))"
    by simp
  from Start_nil_error_running [OF e1] Start_nil_error_running [OF e2] ok bad
  show ?thesis by simp
qed

text \<open>
  Claim C5 as stated fails twice. An instance that was started before and whose next
  \<open>Start\<close> fails in its first step is still reported as running; and after a
  \<open>Start\<close> that returned a nil error, \<open>CheckIsAlive\<close> fails when the validator finds
  the cluster unhealthy.
\<close>

theorem Start_error_path_counterexample:
  "fst (Start world_env_fails inst_started provider0) =
     Return ([], Some (Error ''cannot process environment'')) \<and>
   IsRunning (fst (snd (Start world_env_fails inst_started provider0))) \<and>
   fst (Start world_sick inst_fresh provider0) = Return ([], None) \<and>
   CheckIsAlive (fst (snd (Start world_sick inst_fresh provider0))) =
     Return (Some (Error ''nodes are not ready''))"
  by code_simp

text \<open>
  Claim C7, as amended. \<open>GetClusterConfig\<close> returns the configuration location and a
  nil error when the instance has started, and an empty path and an error when it has
  not. Over any sequence of \<open>Start\<close> calls on an instance that was not started,
  \<open>GetClusterConfig\<close> answers with a nil error afterwards exactly when one of the calls
  returned a nil error, and hands out a path that is not empty only then. (The field
  itself is assigned by \<open>updateKUBEConfig\<close> during \<open>Start\<close>, before the instance is
  marked started.)
\<close>

theorem GetClusterConfig_started:
  "GetClusterConfig pi =
     (if IsRunning pi then (configLocation pi, None)
      else ([], Some (Error ''cluster is not started yet''))) \<and>
   (\<not> IsRunning pi \<and> Starts ws pi p = (rs, pi', p') \<longrightarrow>
      (snd (GetClusterConfig pi') = None \<longleftrightarrow> (\<exists>fileName. Return (fileName, None) \<in> set rs)) \<and>
      (fst (GetClusterConfig pi') \<noteq> [] \<longrightarrow> (\<exists>fileName. Return (fileName, None) \<in> set rs)))"
proof -
  have a: "GetClusterConfig pi =
     (if IsRunning pi then (configLocation pi, None)
      else ([], Some (Error ''cluster is not started yet'')))"
    by (simp add: GetClusterConfig_def IsRunning_def)
  have "snd (GetClusterConfig pi') = None \<longleftrightarrow> (\<exists>fileName. Return (fileName, None) \<in> set rs)"
    and "fst (GetClusterConfig pi') \<noteq> [] \<longrightarrow> (\<exists>fileName. Return (fileName, None) \<in> set rs)"
    if "\<not> IsRunning pi" "Starts ws pi p = (rs, pi', p')"
    using Starts_started [OF that(2)] that(1)
    by (auto simp: GetClusterConfig_def IsRunning_def)
  with a show ?thesis by blast
qed

theorem GetClusterConfig_started_witness:
  "\<not> IsRunning inst_fresh \<and>
   GetClusterConfig inst_fresh = ([], Some (Error ''cluster is not started yet'')) \<and>
   fst (Starts [world_unready, world_ok] inst_fresh provider0) =
     [Return (''/logs/prepare.log'', Some (Error ''timeout'')), Return ([], None)] \<and>
   GetClusterConfig (fst (snd (Starts [world_unready, world_ok] inst_fresh provider0))) =
     (''/tmp/config'', None)"
proof -
  have n: "\<not> IsRunning inst_fresh"
    by code_simp
  have rs: "fst (Starts [world_unready, world_ok] inst_fresh provider0) =
     [Return (''/logs/prepare.log'', Some (Error ''timeout'')), Return ([], None)]"
    by code_simp
  have loc: "configLocation (fst (snd (Starts [world_unready, world_ok] inst_fresh provider0))) =
     ''/tmp/config''"
    by code_simp
  have e: "Starts [world_unready, world_ok] inst_fresh provider0 =
     (fst (Starts [world_unready, world_ok] inst_fresh provider0),
      fst (snd (Starts [world_unready, world_ok] inst_fresh provider0)),
      snd (snd (Starts [world_unready, world_ok] inst_fresh provider0)))"
    by simp
  note th = GetClusterConfig_started [of _ "[world_unready, world_ok]" provider0
      "fst (Starts [world_unready, world_ok] inst_fresh provider0)"
      "fst (snd (Starts [world_unready, world_ok] inst_fresh provider0))"
      "snd (snd (Starts [world_unready, world_ok] inst_fresh provider0))"]
  from th [of inst_fresh] n e rs
  have "snd (GetClusterConfig (fst (snd (Starts [world_unready, world_ok] inst_fresh provider0)))) = None"
    by auto
  with th [of "fst (snd (Starts [world_unready, world_ok] inst_fresh provider0))"] loc
  have "GetClusterConfig (fst (snd (Starts [world_unready, world_ok] inst_fresh provider0))) =
     (''/tmp/config'', None)"
    by (auto split: if_splits)
  with th [of inst_fresh] n rs show ?thesis by simp
qed

text \<open>
  Claim C7 as stated fails: when the validator's wait fails, \<open>Start\<close> returns an error
  and the instance is not started, yet its configuration location is already set.
\<close>

theorem configLocation_before_started_counterexample:
  "fst (Start world_unready inst_fresh provider0) =
     Return (''/logs/prepare.log'', Some (Error ''timeout'')) \<and>
   configLocation (fst (snd (Start world_unready inst_fresh provider0))) = ''/tmp/config'' \<and>
   \<not> IsRunning (fst (snd (Start world_unready inst_fresh provider0)))"
  by code_simp

text \<open>
  Claim C8. Once the configuration location of a packet instance is not empty,
  \<open>updateKUBEConfig\<close> returns without touching the instance, and \<open>Start\<close> and
  \<open>Destroy\<close>, the other operations that return a changed instance, leave the location
  as it is, and so does every sequence of \<open>Start\<close> calls.
\<close>

theorem configLocation_read_only:
  assumes "configLocation pi \<noteq> []"
  shows "updateKUBEConfig w pi = (Return None, pi) \<and>
         configLocation (fst (snd (Start w pi p))) = configLocation pi \<and>
         configLocation (snd (Destroy pi)) = configLocation pi \<and>
         configLocation (fst (snd (Starts ws pi p))) = configLocation pi"
  using assms by (simp add: updateKUBEConfig_set Start_location Destroy_def Starts_location)

theorem configLocation_read_only_witness:
  "configLocation inst_started = ''/tmp/config'' \<and>
   updateKUBEConfig world_moved inst_started = (Return None, inst_started) \<and>
   configLocation (fst (snd (Start world_moved inst_started provider0))) = ''/tmp/config'' \<and>
   configLocation (snd (Destroy inst_started)) = ''/tmp/config'' \<and>
   configLocation (fst (snd (Starts [world_moved, world_env_fails] inst_started provider0))) =
     ''/tmp/config''"
proof -
  have loc: "configLocation inst_started = ''/tmp/config''"
    by code_simp
  then have "configLocation inst_started \<noteq> []" by simp
  from configLocation_read_only [OF this, of world_moved provider0 "[world_moved, world_env_fails]"] loc
  show ?thesis by simp
qed

section \<open>\<open>ValidateConfig\<close>\<close>

lemma checkEnv_None: "checkEnv env a xs = None \<longleftrightarrow> (\<forall>v \<in> set xs. Getenv env v \<noteq> [])"
  by (induction xs) (auto simp: Let_def)

lemma checkEnv_SomeD: "checkEnv env a xs = Some e \<Longrightarrow> \<exists>v \<in> set xs. Getenv env v = []"
  using checkEnv_None [of env a xs] by auto

text \<open>
  Claim C6, as amended. \<open>ValidateConfig\<close> returns nil exactly when the packet element
  is present with devices, reservations for hardware devices and facilities for facility
  devices, a config script or a \<open>KUBECONFIG=\<close> entry and a start script are given,
  every variable of \<open>EnvCheck\<close> has a non-empty value, and \<open>PACKET_AUTH_TOKEN\<close> and
  \<open>PACKET_PROJECT_ID\<close>, which are read by name whether \<open>EnvCheck\<close> lists them or not,
  have one too. So an unset or empty variable of \<open>EnvCheck\<close> always gives an error, and
  so do the other failed checks.
\<close>

theorem ValidateConfig_nil_iff:
  "ValidateConfig env cfg = None \<longleftrightarrow>
     (\<exists>pk. Packet cfg = Some pk \<and>
        (HardwareDevices pk \<noteq> [] \<or> Devices pk \<noteq> []) \<and>
        (HardwareDevices pk \<noteq> [] \<longrightarrow> HardwareReservations pk \<noteq> []) \<and>
        (Devices pk \<noteq> [] \<longrightarrow> Facilities pk \<noteq> [])) \<and>
     (Scripts cfg ''config'' \<noteq> None \<or> list_ex (\<lambda>e. prefix ''KUBECONFIG='' e) (Env cfg)) \<and>
     Scripts cfg ''start'' \<noteq> None \<and>
     (\<forall>v \<in> set (EnvCheck cfg). Getenv env v \<noteq> []) \<and>
     Getenv env ''PACKET_AUTH_TOKEN'' \<noteq> [] \<and>
     Getenv env ''PACKET_PROJECT_ID'' \<noteq> []"
  unfolding ValidateConfig_def
  by (auto simp: Let_def checkEnv_None hasKubeConfig_def HasPrefix_def configScript_key_def
      startScript_key_def split: option.splits dest: checkEnv_SomeD)

theorem ValidateConfig_nil_iff_witness:
  "ValidateConfig env_ok cfg_ok = None \<and>
   ValidateConfig Map.empty cfg_ok \<noteq> None"
proof -
  have "Packet cfg_ok = Some packet_ok" "Devices packet_ok \<noteq> []" "HardwareDevices packet_ok = []"
    "Facilities packet_ok \<noteq> []" "Scripts cfg_ok ''config'' \<noteq> None" "Scripts cfg_ok ''start'' \<noteq> None"
    "EnvCheck cfg_ok = [''PACKET_PROJECT_ID'']"
    "Getenv env_ok ''PACKET_AUTH_TOKEN'' \<noteq> []" "Getenv env_ok ''PACKET_PROJECT_ID'' \<noteq> []"
    "Getenv Map.empty ''PACKET_AUTH_TOKEN'' = []"
    by (simp_all add: cfg_ok_def packet_ok_def dev_ok_def env_ok_def Getenv_def)
  with ValidateConfig_nil_iff [of env_ok cfg_ok] ValidateConfig_nil_iff [of Map.empty cfg_ok]
  show ?thesis by simp
qed

text \<open>
  Claim C6 as stated fails: with every variable of \<open>EnvCheck\<close> set, \<open>ValidateConfig\<close>
  still returns an error when \<open>PACKET_AUTH_TOKEN\<close> is unset, and when the packet element is
  missing.
\<close>

theorem ValidateConfig_error_counterexample:
  "list_all (\<lambda>v. Getenv env_no_token v \<noteq> []) (EnvCheck cfg_ok) \<and>
   ValidateConfig env_no_token cfg_ok =
     Some (Error ''environment variable are not specified PACKET_AUTH_TOKEN'') \<and>
   list_all (\<lambda>v. Getenv env_ok v \<noteq> []) (EnvCheck cfg_no_packet) \<and>
   ValidateConfig env_ok cfg_no_packet =
     Some (Error ''packet configuration element should be specified'')"
  by (simp add: ValidateConfig_def cfg_ok_def cfg_no_packet_def packet_ok_def dev_ok_def
      env_ok_def env_no_token_def Getenv_def configScript_key_def startScript_key_def)

section \<open>\<open>CreateCluster\<close>: the identifiers of the instances\<close>

lemma digit_char_code: "d < 10 \<Longrightarrow> of_char (digit_char d) = 48 + d"
  by (simp add: digit_char_def)

lemma digits_value:
  "foldl (\<lambda>acc c. 10 * acc + (of_char c - 48)) 0 (digits n) = n"
proof (induction n rule: digits.induct)
  case (1 n)
  show ?case
  proof (cases "n < 10")
    case True
    then show ?thesis by (simp add: digits.simps [of n] digit_char_code)
  next
    case False
    with "1.IH" have "foldl (\<lambda>acc c. 10 * acc + (of_char c - 48)) 0 (digits (n div 10)) = n div 10"
      by simp
    with False show ?thesis
      by (simp add: digits.simps [of n] digit_char_code)
  qed
qed

lemma digits_inj: "digits n = digits m \<Longrightarrow> n = m"
  by (metis digits_value)

lemma Sprintf_d_inj: "0 \<le> i \<Longrightarrow> 0 \<le> j \<Longrightarrow> Sprintf_d i = Sprintf_d j \<Longrightarrow> i = j"
  by (auto simp: Sprintf_d_def dest: digits_inj)

text \<open>A counter below \<open>2 ^ 63\<close> reads as itself; the counter \<open>2 ^ 63\<close> reads as \<open>- 2 ^ 63\<close>.\<close>

lemma sint_counter: "n < 2 ^ 63 \<Longrightarrow> sint (of_nat n :: 64 word) = int n"
proof -
  assume a: "n < 2 ^ 63"
  have "sint (of_nat n :: 64 word) = (int n + 2 ^ 63) mod 2 ^ 64 - 2 ^ 63"
    using int_word_sint [where 'a = 64 and x = "int n"] by simp
  also from a have "(int n + 2 ^ 63) mod 2 ^ 64 = int n + 2 ^ 63"
    by (intro mod_pos_pos_trivial) auto
  finally show ?thesis by simp
qed

lemma digit_chars:
  "digit_char 0 = CHR ''0''" "digit_char 1 = CHR ''1''" "digit_char 2 = CHR ''2''"
  "digit_char 3 = CHR ''3''" "digit_char 4 = CHR ''4''" "digit_char 5 = CHR ''5''"
  "digit_char 6 = CHR ''6''" "digit_char 7 = CHR ''7''" "digit_char 8 = CHR ''8''"
  "digit_char 9 = CHR ''9''"
  by code_simp+

lemma Sprintf_d_wrapped: "Sprintf_d (- 9223372036854775808) = ''-9223372036854775808''"
  by (simp add: Sprintf_d_def digits.simps digit_chars)

lemma sint_counter_wrapped: "sint (of_nat (2 ^ 63) :: 64 word) = - 9223372036854775808"
  by simp

lemma CreateCluster_Inl: "CreateCluster w p cfg opts = (Inl e, p') \<Longrightarrow> p' = p"
  by (auto simp: CreateCluster_def Let_def getProviderID_def split: option.splits)

lemma CreateCluster_Inr:
  assumes "CreateCluster w p cfg opts = (Inr pi, p')"
  shows "cfg_Name (config pi) = cfg_Name cfg"
    and "inst_id pi = cfg_Name cfg @ ''-'' @ Sprintf_d (sint (idx p (cfg_Name cfg) + 1))"
    and "idx p' (cfg_Name cfg) = idx p (cfg_Name cfg) + 1"
    and "P \<noteq> cfg_Name cfg \<Longrightarrow> idx p' P = idx p P"
  using assms
  by (auto simp: CreateCluster_def Let_def getProviderID_def idx_def split: option.splits)

lemma CreateCluster_valid:
  "ValidateConfig (os_env w) cfg = None \<Longrightarrow> \<exists>pi p'. CreateCluster w p cfg opts = (Inr pi, p')"
  by (simp add: CreateCluster_def Let_def split: prod.splits)

lemma created_ids:
  "map inst_id (created P (CreateClusters p calls)) =
     map (\<lambda>n. P @ ''-'' @ Sprintf_d (sint (idx p P + of_nat n)))
       [1 ..< Suc (length (created P (CreateClusters p calls)))]"
proof (induction calls arbitrary: p)
  case Nil
  then show ?case by simp
next
  case (Cons call calls)
  obtain w cfg opts where call: "call = (w, cfg, opts)" by (cases call) auto
  obtain r p' where cc: "CreateCluster w p cfg opts = (r, p')" by (cases "CreateCluster w p cfg opts") auto
  show ?case
  proof (cases r)
    case (Inl e)
    with cc have "p' = p" by (auto dest: CreateCluster_Inl)
    with Inl cc call Cons.IH [of p] show ?thesis by simp
  next
    case (Inr pi)
    note facts = CreateCluster_Inr [OF cc [unfolded Inr]]
    show ?thesis
    proof (cases "cfg_Name cfg = P")
      case True
      let ?k = "length (created P (CreateClusters p' calls))"
      have "map inst_id (created P (CreateClusters p (call # calls))) =
            inst_id pi # map inst_id (created P (CreateClusters p' calls))"
        using call cc Inr True facts(1) by simp
      also have "\<dots> = (P @ ''-'' @ Sprintf_d (sint (idx p P + 1))) #
            map (\<lambda>n. P @ ''-'' @ Sprintf_d (sint (idx p P + 1 + of_nat n))) [1 ..< Suc ?k]"
        using Cons.IH [of p'] facts(2,3) True by simp
      also have "\<dots> = map (\<lambda>n. P @ ''-'' @ Sprintf_d (sint (idx p P + of_nat n)))
            (1 # map Suc [1 ..< Suc ?k])"
        by (simp add: ac_simps)
      also have "1 # map Suc [1 ..< Suc ?k] = [1 ..< Suc (Suc ?k)]"
        by (simp add: map_Suc_upt upt_conv_Cons del: upt_Suc)
      also have "Suc ?k = length (created P (CreateClusters p (call # calls)))"
        using call cc Inr True facts(1) by simp
      finally show ?thesis .
    next
      case False
      with facts(4) [of P] have "idx p' P = idx p P" by simp
      with False call cc Inr facts(1) Cons.IH [of p'] show ?thesis by simp
    qed
  qed
qed

lemma idx_new: "idx (NewPacketClusterProvider r) P = 0"
  by (simp add: idx_def NewPacketClusterProvider_def)

lemma created_replicate:
  "ValidateConfig (os_env w) cfg = None \<Longrightarrow>
   length (created (cfg_Name cfg) (CreateClusters p (replicate n (w, cfg, opts)))) = n"
proof (induction n arbitrary: p)
  case 0
  then show ?case by simp
next
  case (Suc n)
  from CreateCluster_valid [OF Suc.prems, of p opts]
  obtain pi p' where cc: "CreateCluster w p cfg opts = (Inr pi, p')" by blast
  from CreateCluster_Inr(1) [OF cc] have "cfg_Name (config pi) = cfg_Name cfg" .
  with cc Suc.IH [OF Suc.prems, of p'] show ?case by simp
qed

lemma last_id_replicate:
  assumes "0 < n" and "ValidateConfig (os_env w) cfg = None"
  shows "last (map inst_id (created (cfg_Name cfg)
           (CreateClusters (NewPacketClusterProvider r) (replicate n (w, cfg, opts))))) =
         cfg_Name cfg @ ''-'' @ Sprintf_d (sint (of_nat n :: 64 word))"
proof -
  let ?cs = "created (cfg_Name cfg)
      (CreateClusters (NewPacketClusterProvider r) (replicate n (w, cfg, opts)))"
  have len: "length ?cs = n"
    using assms(2) by (rule created_replicate)
  from assms(1) have upt: "[1 ..< Suc n] = [1 ..< n] @ [n]" by simp
  have "map inst_id ?cs =
      map (\<lambda>k. cfg_Name cfg @ ''-'' @ Sprintf_d (sint (of_nat k :: 64 word))) [1 ..< Suc n]"
    using created_ids [of "cfg_Name cfg" "NewPacketClusterProvider r" "replicate n (w, cfg, opts)"]
    by (simp only: len idx_new add_0_left)
  then show ?thesis by (simp only: upt map_append list.map last_snoc)
qed

text \<open>
  Claim C9, as amended. Over any sequence of \<open>CreateCluster\<close> calls on a new packet
  provider in which fewer than \<open>2 ^ 63\<close> instances are created for the configuration
  name \<open>P\<close>, these instances carry, in the order of their creation, the identifiers
  \<open>P-1\<close>, \<open>P-2\<close>, ...; the identifiers are distinct.
\<close>

theorem instance_ids_are_name_ordinal:
  assumes "length (created P (CreateClusters (NewPacketClusterProvider r) calls)) < 2 ^ 63"
  shows "map inst_id (created P (CreateClusters (NewPacketClusterProvider r) calls)) =
           map (\<lambda>n. P @ ''-'' @ Sprintf_d (int n))
             [1 ..< Suc (length (created P (CreateClusters (NewPacketClusterProvider r) calls)))] \<and>
         distinct (map inst_id (created P (CreateClusters (NewPacketClusterProvider r) calls)))"
proof -
  let ?ids = "map inst_id (created P (CreateClusters (NewPacketClusterProvider r) calls))"
  let ?k = "length (created P (CreateClusters (NewPacketClusterProvider r) calls))"
  have "?ids = map (\<lambda>n. P @ ''-'' @ Sprintf_d (sint (of_nat n :: 64 word))) [1 ..< Suc ?k]"
    using created_ids [of P "NewPacketClusterProvider r" calls] by (simp add: idx_new)
  also have "\<dots> = map (\<lambda>n. P @ ''-'' @ Sprintf_d (int n)) [1 ..< Suc ?k]"
  proof (rule map_cong [OF refl])
    fix n assume "n \<in> set [1 ..< Suc ?k]"
    then have "n \<le> ?k" by (simp del: upt_Suc)
    with assms have "n < 2 ^ 63" by linarith
    then show "P @ ''-'' @ Sprintf_d (sint (of_nat n :: 64 word)) = P @ ''-'' @ Sprintf_d (int n)"
      by (simp add: sint_counter)
  qed
  finally have eq: "?ids = map (\<lambda>n. P @ ''-'' @ Sprintf_d (int n)) [1 ..< Suc ?k]" .
  have "inj (\<lambda>n. P @ ''-'' @ Sprintf_d (int n))"
  proof (rule injI)
    fix a b :: nat
    assume "P @ ''-'' @ Sprintf_d (int a) = P @ ''-'' @ Sprintf_d (int b)"
    then have "Sprintf_d (int a) = Sprintf_d (int b)" by simp
    then have "int a = int b" by (intro Sprintf_d_inj) simp_all
    then show "a = b" by simp
  qed
  then have "inj_on (\<lambda>n. P @ ''-'' @ Sprintf_d (int n)) (set [1 ..< Suc ?k])"
    by (rule inj_on_subset) simp
  then have "distinct (map (\<lambda>n. P @ ''-'' @ Sprintf_d (int n)) [1 ..< Suc ?k])"
    by (simp add: distinct_map)
  with eq show ?thesis by simp
qed

theorem instance_ids_are_name_ordinal_witness:
  "length (created ''packet'' (CreateClusters (NewPacketClusterProvider ''/root'') calls3)) < 2 ^ 63 \<and>
   map inst_id (created ''packet'' (CreateClusters (NewPacketClusterProvider ''/root'') calls3)) =
     [''packet-1'', ''packet-2''] \<and>
   map isl (CreateClusters (NewPacketClusterProvider ''/root'') calls3) = [False, True, False]"
proof -
  have len: "length (created ''packet'' (CreateClusters (NewPacketClusterProvider ''/root'') calls3)) = 2"
    by code_simp
  then have small:
    "length (created ''packet'' (CreateClusters (NewPacketClusterProvider ''/root'') calls3)) < 2 ^ 63"
    by simp
  have fails: "map isl (CreateClusters (NewPacketClusterProvider ''/root'') calls3) = [False, True, False]"
    by code_simp
  have names: "Sprintf_d 1 = ''1''" "Sprintf_d 2 = ''2''"
    by code_simp+
  have "[1 ..< Suc 2] = [1, 2]"
    by (simp add: upt_conv_Cons)
  with instance_ids_are_name_ordinal [OF small] len fails names
  show ?thesis by simp
qed

text \<open>
  Claim C9 as stated fails where the counter wraps around. After \<open>2 ^ 63 - 1\<close>
  instances for one name the counter holds the largest \<open>int\<close>; the next \<open>val++\<close> gives
  the smallest one, and the instance created then, the \<open>2 ^ 63\<close>-th, is not called
  \<open>packet-9223372036854775808\<close>.
\<close>

theorem instance_id_wraps_counterexample:
  "last (map inst_id (created ''packet''
     (CreateClusters (NewPacketClusterProvider ''/root'')
        (replicate (2 ^ 63) (world_ok, cfg_ok, opts_default))))) =
   ''packet--9223372036854775808''"
proof -
  have v: "ValidateConfig (os_env world_ok) cfg_ok = None"
    by code_simp
  have n: "cfg_Name cfg_ok = ''packet''"
    by (simp add: cfg_ok_def)
  have pos: "(0::nat) < 2 ^ 63"
    by simp
  have s: "Sprintf_d (sint (of_nat (2 ^ 63) :: 64 word)) = ''-9223372036854775808''"
    by (simp only: sint_counter_wrapped Sprintf_d_wrapped)
  have "last (map inst_id (created ''packet''
     (CreateClusters (NewPacketClusterProvider ''/root'')
        (replicate (2 ^ 63) (world_ok, cfg_ok, opts_default))))) =
     ''packet'' @ ''-'' @ Sprintf_d (sint (of_nat (2 ^ 63) :: 64 word))"
    using last_id_replicate [OF pos v, of "''/root''" opts_default] by (simp only: n)
  also have "\<dots> = ''packet--9223372036854775808''"
    by (simp only: s) simp
  finally show ?thesis .
qed

section \<open>\<open>PrintEnv\<close> and \<open>PrintArgs\<close>: masking\<close>

lemma Count_zero_replaceLoop: "Count s old = 0 \<Longrightarrow> replaceLoop s old new = s"
proof (induction s old new rule: replaceLoop.induct)
  case (1 s old new)
  show ?case
  proof (cases "s = [] \<or> old = []")
    case True
    then show ?thesis by (simp add: replaceLoop.simps)
  next
    case False
    with "1.prems" have np: "\<not> prefix old s" and c: "Count (tl s) old = 0"
      by (auto simp: Count.simps [of s old] split: if_splits)
    from False np c "1.IH"(2) have "replaceLoop (tl s) old new = tl s" by simp
    with False np show ?thesis by (simp add: replaceLoop.simps [of s old new])
  qed
qed

lemma Replace_eq_replaceLoop:
  "old \<noteq> [] \<Longrightarrow> old \<noteq> new \<Longrightarrow> Replace s old new = replaceLoop s old new"
  by (simp add: Replace_def Count_zero_replaceLoop)

lemma star_free_prefix_stars:
  "CHR ''*'' \<notin> set t \<Longrightarrow> prefix t (CHR ''*'' # xs) \<Longrightarrow> t = []"
  by (cases t) auto

lemma star_free_sublist_stars:
  assumes "CHR ''*'' \<notin> set t" "t \<noteq> []" "sublist t (''****'' @ xs)"
  shows "sublist t xs"
  using assms by (auto simp: sublist_Cons_right dest: star_free_prefix_stars)

lemma replaceLoop_Nil [simp]: "replaceLoop [] old new = []"
  by (simp add: replaceLoop.simps)

lemma replaceLoop_hit:
  "old \<noteq> [] \<Longrightarrow> s \<noteq> [] \<Longrightarrow> prefix old s \<Longrightarrow>
   replaceLoop s old new = new @ replaceLoop (drop (length old) s) old new"
  by (subst replaceLoop.simps) simp

lemma replaceLoop_miss:
  "old \<noteq> [] \<Longrightarrow> \<not> prefix old (c # cs) \<Longrightarrow>
   replaceLoop (c # cs) old new = c # replaceLoop cs old new"
  by (subst replaceLoop.simps) simp

lemma prefix_replaceLoop:
  "CHR ''*'' \<notin> set t \<Longrightarrow> old \<noteq> [] \<Longrightarrow> prefix t (replaceLoop s old ''****'') \<Longrightarrow> prefix t s"
proof (induction s arbitrary: t)
  case Nil
  then show ?case by simp
next
  case (Cons c cs)
  show ?case
  proof (cases "prefix old (c # cs)")
    case True
    with Cons.prems have "prefix t (CHR ''*'' # ''***'' @ replaceLoop (drop (length old) (c # cs)) old ''****'')"
      by (simp add: replaceLoop_hit)
    with Cons.prems(1) have "t = []" by (rule star_free_prefix_stars)
    then show ?thesis by simp
  next
    case False
    with Cons.prems have p: "prefix t (c # replaceLoop cs old ''****'')"
      by (simp add: replaceLoop_miss)
    show ?thesis
    proof (cases t)
      case Nil
      then show ?thesis by simp
    next
      case (Cons a t')
      with p have a: "a = c" and "prefix t' (replaceLoop cs old ''****'')" by auto
      moreover from Cons Cons.prems(1) have "CHR ''*'' \<notin> set t'" by simp
      ultimately have "prefix t' cs" using Cons.IH [of t'] Cons.prems(2) by simp
      with a Cons show ?thesis by simp
    qed
  qed
qed

lemma sublist_replaceLoop:
  "CHR ''*'' \<notin> set t \<Longrightarrow> t \<noteq> [] \<Longrightarrow> old \<noteq> [] \<Longrightarrow>
   sublist t (replaceLoop s old ''****'') \<Longrightarrow> sublist t s"
proof (induction s rule: length_induct)
  case (1 s)
  show ?case
  proof (cases s)
    case Nil
    with "1.prems" show ?thesis by simp
  next
    case (Cons c cs)
    show ?thesis
    proof (cases "prefix old s")
      case True
      with Cons "1.prems" have "sublist t (''****'' @ replaceLoop (drop (length old) s) old ''****'')"
        by (simp add: replaceLoop_hit)
      with "1.prems"(1,2) have "sublist t (replaceLoop (drop (length old) s) old ''****'')"
        by (rule star_free_sublist_stars)
      moreover have "length (drop (length old) s) < length s"
        using Cons "1.prems"(3) by simp
      ultimately have "sublist t (drop (length old) s)"
        using "1.IH" "1.prems"(1,2,3) by blast
      then show ?thesis
        using sublist_drop sublist_order.order.trans by blast
    next
      case False
      with Cons "1.prems" have "sublist t (c # replaceLoop cs old ''****'')"
        by (simp add: replaceLoop_miss)
      then consider (pre) "prefix t (c # replaceLoop cs old ''****'')"
        | (sub) "sublist t (replaceLoop cs old ''****'')"
        by (auto simp: sublist_Cons_right)
      then show ?thesis
      proof cases
        case pre
        then have "prefix t (replaceLoop s old ''****'')"
          using False Cons "1.prems"(3) by (simp add: replaceLoop_miss)
        with "1.prems"(1,3) have "prefix t s" by (rule prefix_replaceLoop)
        then show ?thesis by (rule prefix_imp_sublist)
      next
        case sub
        moreover have "length cs < length s" using Cons by simp
        ultimately have "sublist t cs" using "1.IH" "1.prems"(1,2,3) by blast
        with Cons show ?thesis by (simp add: sublist_Cons_right)
      qed
    qed
  qed
qed

lemma replaceLoop_removes:
  "CHR ''*'' \<notin> set old \<Longrightarrow> old \<noteq> [] \<Longrightarrow> \<not> sublist old (replaceLoop s old ''****'')"
proof (induction s rule: length_induct)
  case (1 s)
  show ?case
  proof (cases s)
    case Nil
    with "1.prems" show ?thesis by simp
  next
    case (Cons c cs)
    show ?thesis
    proof (cases "prefix old s")
      case True
      with Cons "1.prems" have eq: "replaceLoop s old ''****'' = ''****'' @ replaceLoop (drop (length old) s) old ''****''"
        by (simp add: replaceLoop_hit)
      have "length (drop (length old) s) < length s"
        using Cons "1.prems"(2) by simp
      then have "\<not> sublist old (replaceLoop (drop (length old) s) old ''****'')"
        using "1.IH" "1.prems" by blast
      with "1.prems" show ?thesis unfolding eq
        using star_free_sublist_stars by blast
    next
      case False
      with Cons "1.prems" have eq: "replaceLoop s old ''****'' = c # replaceLoop cs old ''****''"
        by (simp add: replaceLoop_miss)
      have "length cs < length s" using Cons by simp
      then have ih: "\<not> sublist old (replaceLoop cs old ''****'')"
        using "1.IH" "1.prems" by blast
      have "\<not> prefix old (replaceLoop s old ''****'')"
        using prefix_replaceLoop [OF "1.prems"(1) "1.prems"(2)] False by blast
      then have "\<not> prefix old (c # replaceLoop cs old ''****'')" by (simp add: eq)
      with ih show ?thesis unfolding eq by (simp add: sublist_Cons_right)
    qed
  qed
qed


lemma Replace_keeps_absent:
  assumes "CHR ''*'' \<notin> set t" "t \<noteq> []" "old \<noteq> []" "\<not> sublist t s"
  shows "\<not> sublist t (Replace s old ''****'')"
proof (cases "old = ''****''")
  case True
  with assms show ?thesis by (simp add: Replace_def)
next
  case False
  with assms(3) have "Replace s old ''****'' = replaceLoop s old ''****''"
    by (rule Replace_eq_replaceLoop)
  with assms sublist_replaceLoop [of t old s] show ?thesis by auto
qed

lemma Replace_removes:
  assumes "CHR ''*'' \<notin> set old" "old \<noteq> []"
  shows "\<not> sublist old (Replace s old ''****'')"
proof -
  from assms(1) have "old \<noteq> ''****''" by auto
  with assms(2) have "Replace s old ''****'' = replaceLoop s old ''****''"
    by (rule Replace_eq_replaceLoop)
  with assms replaceLoop_removes [of old s] show ?thesis by simp
qed

lemma maskValue_keeps_absent:
  assumes "\<forall>ce \<in> set checks. Getenv env ce \<noteq> []"
      and "CHR ''*'' \<notin> set t" "t \<noteq> []" "\<not> sublist t v"
  shows "\<not> sublist t (maskValue env checks v)"
  using assms
proof (induction checks arbitrary: v)
  case Nil
  then show ?case by (simp add: maskValue_def)
next
  case (Cons c checks)
  from Cons.prems have "\<not> sublist t (Replace v (Getenv env c) ''****'')"
    by (intro Replace_keeps_absent) simp_all
  with Cons.IH [of "Replace v (Getenv env c) ''****''"] Cons.prems
  show ?case by (simp add: maskValue_def)
qed

lemma maskValue_removes:
  assumes "\<forall>ce \<in> set checks. Getenv env ce \<noteq> [] \<and> CHR ''*'' \<notin> set (Getenv env ce)"
      and "ce \<in> set checks"
  shows "\<not> sublist (Getenv env ce) (maskValue env checks v)"
  using assms
proof (induction checks arbitrary: v)
  case Nil
  then show ?case by simp
next
  case (Cons c checks)
  let ?v1 = "Replace v (Getenv env c) ''****''"
  have step: "maskValue env (c # checks) v = maskValue env checks ?v1"
    by (simp add: maskValue_def)
  show ?case
  proof (cases "ce \<in> set checks")
    case True
    with Cons.IH [of ?v1] Cons.prems show ?thesis by (simp add: step)
  next
    case False
    with Cons.prems have ce: "ce = c" by simp
    from Cons.prems have "\<not> sublist (Getenv env c) ?v1"
      by (intro Replace_removes) simp_all
    moreover from Cons.prems have "\<forall>x \<in> set checks. Getenv env x \<noteq> []"
      and "CHR ''*'' \<notin> set (Getenv env c)" and "Getenv env c \<noteq> []" by simp_all
    ultimately have "\<not> sublist (Getenv env c) (maskValue env checks ?v1)"
      by (intro maskValue_keeps_absent)
    with ce show ?thesis by (simp add: step)
  qed
qed

text \<open>
  Claim C10, as amended. Unless \<open>NoMaskParameters\<close> is set, \<open>PrintEnv\<close> and
  \<open>PrintArgs\<close> print every variable as its name, an equals sign and its masked value,
  where for each name of \<open>EnvCheck\<close> in turn the occurrences of that variable's current
  value have been replaced by four stars. When every variable of \<open>EnvCheck\<close> has a value
  that is not empty and holds no star, no masked value contains any of these values.
\<close>

theorem masked_values_hide_secrets:
  assumes "\<not> NoMaskParameters (si_params si)"
      and "\<forall>ce \<in> set (EnvCheck (si_config si)).
             Getenv env ce \<noteq> [] \<and> CHR ''*'' \<notin> set (Getenv env ce)"
  shows "PrintEnv pv env si penv =
           concat (map (\<lambda>e. fst (pv e) @ ''='' @
                     maskValue env (EnvCheck (si_config si)) (snd (pv e)) @ [CHR 0x0A]) penv) \<and>
         PrintArgs env si =
           ''Arguments:'' @ [CHR 0x0A] @
           concat (map (\<lambda>(varName, varValue). varName @ ''='' @
                     maskValue env (EnvCheck (si_config si)) varValue @ [CHR 0x0A]) (finalArgs si)) \<and>
         (\<forall>ce \<in> set (EnvCheck (si_config si)). \<forall>v.
            \<not> Contains (maskValue env (EnvCheck (si_config si)) v) (Getenv env ce))"
proof -
  from assms(1) have "PrintEnv pv env si penv =
      concat (map (\<lambda>e. fst (pv e) @ ''='' @
                maskValue env (EnvCheck (si_config si)) (snd (pv e)) @ [CHR 0x0A]) penv)"
    by (simp add: PrintEnv_def printValue_def case_prod_beta)
  moreover from assms(1) have "PrintArgs env si =
      ''Arguments:'' @ [CHR 0x0A] @
      concat (map (\<lambda>(varName, varValue). varName @ ''='' @
                maskValue env (EnvCheck (si_config si)) varValue @ [CHR 0x0A]) (finalArgs si))"
    by (simp add: PrintArgs_def printValue_def)
  moreover have "\<forall>ce \<in> set (EnvCheck (si_config si)). \<forall>v.
      \<not> Contains (maskValue env (EnvCheck (si_config si)) v) (Getenv env ce)"
    using maskValue_removes [OF assms(2)] by (simp add: Contains_def)
  ultimately show ?thesis by blast
qed

theorem masked_values_hide_secrets_witness:
  "\<not> NoMaskParameters (si_params si_secret) \<and>
   Getenv env_token ''SECRET'' = ''s3cr3t'' \<and>
   PrintArgs env_token si_secret = ''Arguments:'' @ [CHR 0x0A] @ ''token=Bearer ****'' @ [CHR 0x0A] \<and>
   \<not> Contains (maskValue env_token [''SECRET''] ''Bearer s3cr3t'') ''s3cr3t''"
proof -
  have a: "\<not> NoMaskParameters (si_params si_secret)"
    by code_simp
  have c: "EnvCheck (si_config si_secret) = [''SECRET'']" "Getenv env_token ''SECRET'' = ''s3cr3t''"
    "finalArgs si_secret = [(''token'', ''Bearer s3cr3t'')]"
    by code_simp+
  then have b: "\<forall>ce \<in> set (EnvCheck (si_config si_secret)).
      Getenv env_token ce \<noteq> [] \<and> CHR ''*'' \<notin> set (Getenv env_token ce)"
    by simp
  have m: "maskValue env_token [''SECRET''] ''Bearer s3cr3t'' = ''Bearer ****''"
    by code_simp
  note th = masked_values_hide_secrets [OF a b, of splitVariable "[]"]
  from th c m have args: "PrintArgs env_token si_secret =
      ''Arguments:'' @ [CHR 0x0A] @ ''token=Bearer ****'' @ [CHR 0x0A]"
    by simp
  from th c have "\<forall>v. \<not> Contains (maskValue env_token [''SECRET''] v) ''s3cr3t''"
    by simp
  then have "\<not> Contains (maskValue env_token [''SECRET''] ''Bearer s3cr3t'') ''s3cr3t''"
    by (rule spec)
  with a c args show ?thesis by simp
qed

text \<open>
  Claim C10 as stated fails for a secret that holds a star: the mask put in its place
  contains it again.
\<close>

theorem masked_output_counterexample:
  "\<not> NoMaskParameters (si_params si_secret) \<and>
   EnvCheck (si_config si_secret) = [''SECRET''] \<and>
   Getenv env_star ''SECRET'' = ''*'' \<and>
   PrintEnv splitVariable env_star si_secret [''TOKEN=*''] = ''TOKEN=****'' @ [CHR 0x0A] \<and>
   Contains (PrintEnv splitVariable env_star si_secret [''TOKEN=*'']) (Getenv env_star ''SECRET'')"
  by code_simp

section \<open>The engine: the outcome of provisioning\<close>

text \<open>
  In the packet provider a failing start script makes \<open>Start\<close> return its error: the
  last part of \<open>Start\<close> begins with that script.
\<close>

lemma start_script_failure:
  "RunCmd w ''start'' (startScript pi) [] = (fileName, Some e) \<Longrightarrow>
   Start_finish w pi = (Return (fileName, Some e), pi)"
  by (simp add: Start_finish_def)

text \<open>
  Claim C4. For an instance that is being provisioned (state \<open>Starting\<close>), a start that
  returns an error takes the instance to \<open>Crashed\<close> and emits \<open>ClusterCrashed\<close> with
  cause \<open>startup\<close>; a start that returns a nil error takes it to \<open>Ready\<close>, publishes
  the configuration location and emits \<open>ClusterReady\<close>.
\<close>

theorem provisioning_result:
  assumes "state ci = Starting"
  shows "transition ci (provisioned (logFile, Some err) location) =
           Some (Some (ci\<lparr>state := Crashed\<rparr>), [ClusterCrashed (ID ci) startup]) \<and>
         transition ci (provisioned (logFile, None) location) =
           Some (Some (ci\<lparr>state := Ready, ConfigLocation := location\<rparr>), [ClusterReady (ID ci)])"
  using assms by (simp add: provisioned_def)

text \<open>
  The witness takes the results of the packet instance's \<open>Start\<close>: one where the start
  script exits with status 2, and one where everything succeeds.
\<close>

theorem provisioning_result_witness:
  "fst (Start world_start_fails inst_fresh provider0) =
     Return (''/logs/start.log'', Some (Error ''exit status 2'')) \<and>
   transition (test_instance\<lparr>state := Starting\<rparr>)
     (provisioned (''/logs/start.log'', Some (Error ''exit status 2'')) []) =
     Some (Some (test_instance\<lparr>state := Crashed\<rparr>), [ClusterCrashed ''a_provider-1'' startup]) \<and>
   fst (Start world_ok inst_fresh provider0) = Return ([], None) \<and>
   transition (test_instance\<lparr>state := Starting\<rparr>) (provisioned ([], None) ''/tmp/config'') =
     Some (Some (test_instance\<lparr>state := Ready, ConfigLocation := ''/tmp/config''\<rparr>),
           [ClusterReady ''a_provider-1''])"
proof -
  have s: "fst (Start world_start_fails inst_fresh provider0) =
      Return (''/logs/start.log'', Some (Error ''exit status 2''))"
    "fst (Start world_ok inst_fresh provider0) = Return ([], None)"
    by code_simp+
  have st: "state (test_instance\<lparr>state := Starting\<rparr>) = Starting"
    and ident: "ID (test_instance\<lparr>state := Starting\<rparr>) = ''a_provider-1''"
    by (simp_all add: test_instance_def)
  from provisioning_result [OF st, of "''/logs/start.log''" "Error ''exit status 2''" "[]"]
       provisioning_result [OF st, of "[]" "Error []" "''/tmp/config''"] s ident
  show ?thesis by simp
qed

end
